theory Spec2Isabelle
  imports Complex_Main
begin

section \<open>End-effector trajectories (paths/trajectories.py)\<close>

text \<open>
  The source computes with numpy arrays of float64 and Python numbers. The embedding
  idealises finite floats as the reals: rounding and overflow are not modelled. One
  float effect is kept, because the source can reach it from finite inputs: numpy
  divides an array by zero without raising and yields an array of inf/nan entries.
  Such an array is the value \<open>NonFinite\<close>; every entry of it is inf or nan, and
  every array operation of the source that takes it returns again an array of inf/nan
  entries. A division whose numerator is a plain Python float raises ZeroDivisionError
  instead. Division is Python 3's true division.

  Outside the idealisation: a Python float power \<open>x ** 2\<close> raises OverflowError when
  the square exceeds the float range, and the square of a very small duration underflows
  to \<open>0.0\<close>. Neither happens for magnitudes between \<open>1 / 2 ^ 500\<close> and \<open>2 ^ 500\<close>;
  a statement about which durations a constructor accepts is made for that range.
\<close>

subsection \<open>Arrays\<close>

type_synonym vec3 = "real \<times> real \<times> real"

type_synonym quat = "real \<times> real \<times> real \<times> real"

fun vadd :: "vec3 \<Rightarrow> vec3 \<Rightarrow> vec3" where
  "vadd (a, b, c) (x, y, z) = (a + x, b + y, c + z)"

fun vsub :: "vec3 \<Rightarrow> vec3 \<Rightarrow> vec3" where
  "vsub (a, b, c) (x, y, z) = (a - x, b - y, c - z)"

fun smul :: "real \<Rightarrow> vec3 \<Rightarrow> vec3" where
  "smul k (x, y, z) = (k * x, k * y, k * z)"

datatype arr3 = Arr vec3 | NonFinite

fun arr_add :: "arr3 \<Rightarrow> arr3 \<Rightarrow> arr3" where
  "arr_add (Arr u) (Arr v) = Arr (vadd u v)"
| "arr_add _ _ = NonFinite"

fun arr_sub :: "arr3 \<Rightarrow> arr3 \<Rightarrow> arr3" where
  "arr_sub (Arr u) (Arr v) = Arr (vsub u v)"
| "arr_sub _ _ = NonFinite"

fun arr_scale :: "real \<Rightarrow> arr3 \<Rightarrow> arr3" where
  "arr_scale k (Arr v) = Arr (smul k v)"
| "arr_scale k NonFinite = NonFinite"

text \<open>\<open>array / scalar\<close>: numpy warns on a zero divisor and returns inf/nan entries.\<close>

fun arr_div :: "arr3 \<Rightarrow> real \<Rightarrow> arr3" where
  "arr_div (Arr v) d = (if d = 0 then NonFinite else Arr (smul (1 / d) v))"
| "arr_div NonFinite d = NonFinite"

text \<open>
  \<open>np.hstack((pos, orientation))\<close> is the 7-vector of a position and a quaternion,
  \<open>np.hstack((linear_vel, np.zeros(3)))\<close> the 6-vector of a linear and an angular
  part; both are kept as pairs of their two parts.
\<close>

type_synonym pose = "arr3 \<times> quat"

type_synonym twist = "arr3 \<times> vec3"

datatype error = IndexError | ZeroDivisionError

subsection \<open>Trajectory and LinearTrajectory\<close>

record Trajectory =
  total_time :: real

record linear_trajectory = Trajectory +
  start_position :: vec3
  goal_position :: vec3
  distance :: vec3
  acceleration :: arr3
  v_max :: arr3
  desired_orientation :: quat

text \<open>
  \<open>LinearTrajectory.__init__\<close> stores the duration (\<open>Trajectory.__init__\<close>) and
  calls \<open>create_route\<close>. Nothing is validated, nothing raises.
\<close>

definition create_route :: "vec3 \<Rightarrow> vec3 \<Rightarrow> real \<Rightarrow> linear_trajectory" where
  "create_route start goal T =
     (let dist = vsub goal start;
          acc = arr_div (Arr (smul 4 dist)) (T ^ 2);
          vm = arr_scale (T / 2) acc
      in \<lparr>total_time = T, start_position = start, goal_position = goal,
          distance = dist, acceleration = acc, v_max = vm,
          desired_orientation = (0, 1, 0, 0)\<rparr>)"

definition LinearTrajectory :: "vec3 \<Rightarrow> vec3 \<Rightarrow> real \<Rightarrow> linear_trajectory" where
  "LinearTrajectory start goal T = create_route start goal T"

definition linear_target_pose :: "linear_trajectory \<Rightarrow> real \<Rightarrow> pose" where
  "linear_target_pose L time =
     (let pos =
        (if time \<le> total_time L / 2
         then arr_add (Arr (start_position L))
                (arr_scale (time ^ 2) (arr_scale 0.5 (acceleration L)))
         else
           (let first_half = arr_add (Arr (start_position L))
                  (arr_scale ((total_time L / 2) ^ 2) (arr_scale 0.5 (acceleration L)));
                time_remaining = time - total_time L / 2;
                dec = arr_sub (arr_scale time_remaining (v_max L))
                        (arr_scale (time_remaining ^ 2) (arr_scale 0.5 (acceleration L)))
            in arr_add first_half dec))
      in (pos, desired_orientation L))"

definition linear_target_velocity :: "linear_trajectory \<Rightarrow> real \<Rightarrow> twist" where
  "linear_target_velocity L time =
     (let linear_vel =
        (if time \<le> total_time L / 2
         then arr_scale time (acceleration L)
         else arr_sub (v_max L)
                (arr_scale (time - total_time L / 2) (acceleration L)))
      in (linear_vel, (0, 0, 0)))"

subsection \<open>CircularTrajectory\<close>

record circular_trajectory = Trajectory +
  center_position :: vec3
  radius :: real
  angular_acceleration :: real
  angular_v_max :: real
  orientation_c :: quat

text \<open>
  The field \<open>orientation_c\<close> is the source's \<open>desired_orientation\<close> of a
  CircularTrajectory. The numerator \<open>2 * np.pi * 4.0\<close> is a Python float, so a zero
  \<open>total_time ** 2\<close> raises ZeroDivisionError in the constructor.
\<close>

definition CircularTrajectory :: "vec3 \<Rightarrow> real \<Rightarrow> real \<Rightarrow> error + circular_trajectory" where
  "CircularTrajectory center r T =
     (if T ^ 2 = 0 then Inl ZeroDivisionError
      else
        (let aa = (2 * pi * 4) / (T ^ 2);
             avm = (T / 2) * aa
         in Inr \<lparr>total_time = T, center_position = center, radius = r,
                 angular_acceleration = aa, angular_v_max = avm,
                 orientation_c = (0, 1, 0, 0)\<rparr>))"

text \<open>
  Both queries of the source compute the angle \<open>theta\<close> by the same inline code;
  \<open>circular_theta\<close> is that code, \<open>circular_theta_dot\<close> the angular rate of
  \<open>target_velocity\<close>.
\<close>

definition circular_theta :: "circular_trajectory \<Rightarrow> real \<Rightarrow> real" where
  "circular_theta C time =
     (if time \<le> total_time C / 2
      then 0.5 * angular_acceleration C * time ^ 2
      else
        (let time_left = time - total_time C / 2
         in pi + angular_v_max C * time_left
              - 0.5 * angular_acceleration C * time_left ^ 2))"

definition circular_theta_dot :: "circular_trajectory \<Rightarrow> real \<Rightarrow> real" where
  "circular_theta_dot C time =
     (if time \<le> total_time C / 2
      then angular_acceleration C * time
      else
        (let time_remaining = time - total_time C / 2
         in angular_v_max C - angular_acceleration C * time_remaining))"

text \<open>\<open>target_pose\<close> also prints the position; the output stream is not modelled.\<close>

definition circular_target_pose :: "circular_trajectory \<Rightarrow> real \<Rightarrow> pose" where
  "circular_target_pose C time =
     (let theta = circular_theta C time;
          pos_d = vadd (center_position C) (smul (radius C) (cos theta, sin theta, 0))
      in (Arr pos_d, orientation_c C))"

definition circular_target_velocity :: "circular_trajectory \<Rightarrow> real \<Rightarrow> twist" where
  "circular_target_velocity C time =
     (let theta = circular_theta C time;
          theta_dot = circular_theta_dot C time;
          vel_d = smul (radius C * theta_dot) (- sin theta, cos theta, 0)
      in (Arr vel_d, (0, 0, 0)))"

subsection \<open>PolygonalTrajectory\<close>

record polygonal_trajectory = Trajectory +
  trajectories :: "linear_trajectory list"

text \<open>\<open>xs[i]\<close> for a non-negative index: IndexError past the end.\<close>

definition item :: "'a list \<Rightarrow> nat \<Rightarrow> error + 'a" where
  "item xs i = (if i < length xs then Inr (xs ! i) else Inl IndexError)"

text \<open>
  The constructor's loop \<open>for i in range(4)\<close>, over the indices still to visit, with
  the loop variables \<open>current_position\<close> and \<open>self.trajectories\<close>.
\<close>

fun polygonal_loop ::
  "vec3 \<Rightarrow> vec3 list \<Rightarrow> real \<Rightarrow> nat list \<Rightarrow> vec3 \<Rightarrow> linear_trajectory list
     \<Rightarrow> error + linear_trajectory list" where
  "polygonal_loop ar points T [] current segs = Inr segs"
| "polygonal_loop ar points T (i # rest) current segs =
     (case item points i of
        Inl e \<Rightarrow> Inl e
      | Inr p \<Rightarrow>
          (let target_position = vadd ar p
           in polygonal_loop ar points T rest target_position
                (segs @ [LinearTrajectory current target_position (T / 4)])))"

definition PolygonalTrajectory ::
  "vec3 \<Rightarrow> vec3 \<Rightarrow> vec3 list \<Rightarrow> real \<Rightarrow> error + polygonal_trajectory" where
  "PolygonalTrajectory start ar points T =
     (case polygonal_loop ar points T [0, 1, 2, 3] start [] of
        Inl e \<Rightarrow> Inl e
      | Inr segs \<Rightarrow> Inr \<lparr>total_time = T, trajectories = segs\<rparr>)"

text \<open>
  The selection loop of both queries: \<open>trajectory\<close> starts as
  \<open>self.trajectories[0]\<close> and is replaced by \<open>self.trajectories[i]\<close> at the first
  \<open>i\<close> of \<open>range(4)\<close> with \<open>time <= (i+1)*self.total_time/4\<close>, where the loop
  breaks.
\<close>

fun select_loop ::
  "polygonal_trajectory \<Rightarrow> real \<Rightarrow> nat list \<Rightarrow> linear_trajectory
     \<Rightarrow> error + linear_trajectory" where
  "select_loop P time [] trajectory = Inr trajectory"
| "select_loop P time (i # rest) trajectory =
     (if time \<le> (real i + 1) * total_time P / 4
      then item (trajectories P) i
      else select_loop P time rest trajectory)"

definition select_trajectory ::
  "polygonal_trajectory \<Rightarrow> real \<Rightarrow> error + linear_trajectory" where
  "select_trajectory P time =
     (case item (trajectories P) 0 of
        Inl e \<Rightarrow> Inl e
      | Inr trajectory \<Rightarrow> select_loop P time [0, 1, 2, 3] trajectory)"

definition polygonal_target_pose :: "polygonal_trajectory \<Rightarrow> real \<Rightarrow> error + pose" where
  "polygonal_target_pose P time =
     (case select_trajectory P time of
        Inl e \<Rightarrow> Inl e
      | Inr trajectory \<Rightarrow> Inr (linear_target_pose trajectory (time / 4)))"

definition polygonal_target_velocity :: "polygonal_trajectory \<Rightarrow> real \<Rightarrow> error + twist" where
  "polygonal_target_velocity P time =
     (case select_trajectory P time of
        Inl e \<Rightarrow> Inl e
      | Inr trajectory \<Rightarrow> Inr (linear_target_velocity trajectory (time / 4)))"

subsection \<open>The three variants behind one interface\<close>

datatype trajectory =
  Linear linear_trajectory
| Circular circular_trajectory
| Polygonal polygonal_trajectory

fun target_pose :: "trajectory \<Rightarrow> real \<Rightarrow> error + pose" where
  "target_pose (Linear L) time = Inr (linear_target_pose L time)"
| "target_pose (Circular C) time = Inr (circular_target_pose C time)"
| "target_pose (Polygonal P) time = polygonal_target_pose P time"

fun target_velocity :: "trajectory \<Rightarrow> real \<Rightarrow> error + twist" where
  "target_velocity (Linear L) time = Inr (linear_target_velocity L time)"
| "target_velocity (Circular C) time = Inr (circular_target_velocity C time)"
| "target_velocity (Polygonal P) time = polygonal_target_velocity P time"

section \<open>Properties\<close>

subsection \<open>Evaluating the constructors\<close>

lemma create_route_fields:
  "T \<noteq> 0 \<Longrightarrow> acceleration (create_route s g T) = Arr (smul (1 / T ^ 2) (smul 4 (vsub g s)))"
  "T \<noteq> 0 \<Longrightarrow> v_max (create_route s g T) = Arr (smul (T / 2) (smul (1 / T ^ 2) (smul 4 (vsub g s))))"
  "total_time (create_route s g T) = T"
  "start_position (create_route s g T) = s"
  "goal_position (create_route s g T) = g"
  "desired_orientation (create_route s g T) = (0, 1, 0, 0)"
  by (simp_all add: create_route_def Let_def)

lemma CircularTrajectory_fields:
  assumes "T \<noteq> 0"
  shows "CircularTrajectory c r T =
    Inr \<lparr>total_time = T, center_position = c, radius = r,
         angular_acceleration = 8 * pi / T ^ 2, angular_v_max = (T / 2) * (8 * pi / T ^ 2),
         orientation_c = (0, 1, 0, 0)\<rparr>"
  using assms by (simp add: CircularTrajectory_def Let_def)

subsection \<open>End points\<close>

text \<open>
  C4: a LinearTrajectory of positive duration is at its start position at time 0 and at
  its goal position at time \<open>total_time\<close>.
\<close>

theorem linear_endpoints:
  assumes "0 < T"
  shows "fst (linear_target_pose (LinearTrajectory s g T) 0) = Arr s \<and>
         fst (linear_target_pose (LinearTrajectory s g T) T) = Arr g"
proof -
  obtain s1 s2 s3 where s: "s = (s1, s2, s3)" by (cases s)
  obtain g1 g2 g3 where g: "g = (g1, g2, g3)" by (cases g)
  from assms have T: "T \<noteq> 0" by simp
  have at0: "fst (linear_target_pose (LinearTrajectory s g T) 0) = Arr s"
    using assms
    by (simp add: linear_target_pose_def LinearTrajectory_def create_route_fields T s g)
  have "\<not> T \<le> T / 2" using assms by simp
  then have "fst (linear_target_pose (LinearTrajectory s g T) T) = Arr g"
    using T
    by (simp add: linear_target_pose_def LinearTrajectory_def create_route_fields Let_def s g
        power2_eq_square field_simps)
  with at0 show ?thesis by simp
qed

theorem linear_endpoints_witness:
  "(0::real) < 2 \<and>
   fst (linear_target_pose (LinearTrajectory (0, 0, 0) (1, 0, 0) 2) 0) = Arr (0, 0, 0) \<and>
   fst (linear_target_pose (LinearTrajectory (0, 0, 0) (1, 0, 0) 2) 2) = Arr (1, 0, 0)"
  using linear_endpoints [of 2 "(0, 0, 0)" "(1, 0, 0)"] by simp

text \<open>
  C5: a CircularTrajectory of positive duration is at \<open>center + radius * (1, 0, 0)\<close>
  both at time 0 and at time \<open>total_time\<close>, where the angle is 0 and \<open>2 * pi\<close>.
\<close>

theorem circular_endpoints:
  assumes "0 < T"
  shows "\<exists>C. CircularTrajectory c r T = Inr C \<and>
           circular_theta C 0 = 0 \<and> circular_theta C T = 2 * pi \<and>
           fst (circular_target_pose C 0) = Arr (vadd c (smul r (1, 0, 0))) \<and>
           fst (circular_target_pose C T) = Arr (vadd c (smul r (1, 0, 0)))"
proof -
  from assms have T: "T \<noteq> 0" by simp
  define C where "C = \<lparr>total_time = T, center_position = c, radius = r,
         angular_acceleration = 8 * pi / T ^ 2, angular_v_max = (T / 2) * (8 * pi / T ^ 2),
         orientation_c = (0, 1, 0, 0)\<rparr>"
  have ctor: "CircularTrajectory c r T = Inr C"
    unfolding C_def by (rule CircularTrajectory_fields [OF T])
  have th0: "circular_theta C 0 = 0"
    using assms by (simp add: circular_theta_def C_def)
  have "\<not> T \<le> T / 2" using assms by simp
  then have thT: "circular_theta C T = 2 * pi"
    using T by (simp add: circular_theta_def C_def Let_def power2_eq_square field_simps)
  have p0: "fst (circular_target_pose C 0) = Arr (vadd c (smul r (1, 0, 0)))"
    by (simp add: circular_target_pose_def Let_def th0) (simp add: C_def)
  have pT: "fst (circular_target_pose C T) = Arr (vadd c (smul r (1, 0, 0)))"
    by (simp add: circular_target_pose_def Let_def thT) (simp add: C_def)
  from ctor th0 thT p0 pT show ?thesis by blast
qed

theorem circular_endpoints_witness:
  "(0::real) < 7 \<and>
   (\<exists>C. CircularTrajectory (0, 0, 3 / 10) (1 / 10) 7 = Inr C \<and>
      circular_theta C 0 = 0 \<and> circular_theta C 7 = 2 * pi \<and>
      fst (circular_target_pose C 0) = Arr (1 / 10, 0, 3 / 10) \<and>
      fst (circular_target_pose C 7) = Arr (1 / 10, 0, 3 / 10))"
  using circular_endpoints [of 7 "(0, 0, 3 / 10)" "1 / 10"] by simp

subsection \<open>Rest-to-rest motion\<close>

text \<open>
  C6: for a LinearTrajectory and a CircularTrajectory of positive duration the twist
  returned by \<open>target_velocity\<close> is the zero 6-vector at time 0 and at time
  \<open>total_time\<close>.
\<close>

theorem rest_to_rest:
  assumes "0 < T"
  shows "linear_target_velocity (LinearTrajectory s g T) 0 = (Arr (0, 0, 0), (0, 0, 0)) \<and>
         linear_target_velocity (LinearTrajectory s g T) T = (Arr (0, 0, 0), (0, 0, 0)) \<and>
         (\<exists>C. CircularTrajectory c r T = Inr C \<and>
            circular_target_velocity C 0 = (Arr (0, 0, 0), (0, 0, 0)) \<and>
            circular_target_velocity C T = (Arr (0, 0, 0), (0, 0, 0)))"
proof -
  obtain s1 s2 s3 where s: "s = (s1, s2, s3)" by (cases s)
  obtain g1 g2 g3 where g: "g = (g1, g2, g3)" by (cases g)
  from assms have T: "T \<noteq> 0" by simp
  have half: "\<not> T \<le> T / 2" using assms by simp
  have l0: "linear_target_velocity (LinearTrajectory s g T) 0 = (Arr (0, 0, 0), (0, 0, 0))"
    using assms
    by (simp add: linear_target_velocity_def LinearTrajectory_def create_route_fields T s g)
  have lT: "linear_target_velocity (LinearTrajectory s g T) T = (Arr (0, 0, 0), (0, 0, 0))"
    using half T
    by (simp add: linear_target_velocity_def LinearTrajectory_def create_route_fields s g)
  define C where "C = \<lparr>total_time = T, center_position = c, radius = r,
         angular_acceleration = 8 * pi / T ^ 2, angular_v_max = (T / 2) * (8 * pi / T ^ 2),
         orientation_c = (0, 1, 0, 0)\<rparr>"
  have ctor: "CircularTrajectory c r T = Inr C"
    unfolding C_def by (rule CircularTrajectory_fields [OF T])
  have d0: "circular_theta_dot C 0 = 0"
    using assms by (simp add: circular_theta_dot_def C_def)
  have dT: "circular_theta_dot C T = 0"
    using half T by (simp add: circular_theta_dot_def C_def Let_def)
  have c0: "circular_target_velocity C 0 = (Arr (0, 0, 0), (0, 0, 0))"
    by (simp add: circular_target_velocity_def Let_def d0)
  have cT: "circular_target_velocity C T = (Arr (0, 0, 0), (0, 0, 0))"
    by (simp add: circular_target_velocity_def Let_def dT)
  from l0 lT ctor c0 cT show ?thesis by blast
qed

theorem rest_to_rest_witness:
  "(0::real) < 3 \<and>
   linear_target_velocity (LinearTrajectory (0, 0, 0) (1, 2, 3) 3) 0 = (Arr (0, 0, 0), (0, 0, 0)) \<and>
   linear_target_velocity (LinearTrajectory (0, 0, 0) (1, 2, 3) 3) 3 = (Arr (0, 0, 0), (0, 0, 0)) \<and>
   (\<exists>C. CircularTrajectory (0, 0, 1) 2 3 = Inr C \<and>
      circular_target_velocity C 0 = (Arr (0, 0, 0), (0, 0, 0)) \<and>
      circular_target_velocity C 3 = (Arr (0, 0, 0), (0, 0, 0)))"
  using rest_to_rest [of 3 "(0, 0, 0)" "(1, 2, 3)" "(0, 0, 1)" 2] by simp

subsection \<open>Construction of a PolygonalTrajectory\<close>

lemma item_simps:
  "i < length xs \<Longrightarrow> item xs i = Inr (xs ! i)"
  "\<not> i < length xs \<Longrightarrow> item xs i = Inl IndexError"
  by (simp_all add: item_def)

lemma PolygonalTrajectory_ok:
  assumes "4 \<le> length points"
  shows "PolygonalTrajectory start ar points T =
    Inr \<lparr>total_time = T, trajectories =
      [LinearTrajectory start (vadd ar (points ! 0)) (T / 4),
       LinearTrajectory (vadd ar (points ! 0)) (vadd ar (points ! 1)) (T / 4),
       LinearTrajectory (vadd ar (points ! 1)) (vadd ar (points ! 2)) (T / 4),
       LinearTrajectory (vadd ar (points ! 2)) (vadd ar (points ! 3)) (T / 4)]\<rparr>"
proof -
  from assms have "0 < length points" "1 < length points" "2 < length points" "3 < length points"
    by auto
  then show ?thesis
    by (simp add: PolygonalTrajectory_def item_simps Let_def)
qed

lemma PolygonalTrajectory_short:
  assumes "length points < 4"
  shows "PolygonalTrajectory start ar points T = Inl IndexError"
proof -
  from assms consider "length points = 0" | "length points = 1" | "length points = 2" | "length points = 3"
    by linarith
  then show ?thesis
    by cases (simp_all add: PolygonalTrajectory_def item_def Let_def)
qed

lemma select_trajectory_four:
  assumes "length (trajectories P) = 4"
  shows "select_trajectory P t = Inr (trajectories P !
     (if t \<le> total_time P / 4 then 0
      else if t \<le> 2 * total_time P / 4 then 1
      else if t \<le> 3 * total_time P / 4 then 2
      else if t \<le> 4 * total_time P / 4 then 3 else 0))"
  using assms by (simp add: select_trajectory_def item_def)


lemma PolygonalTrajectory_Inr:
  assumes "PolygonalTrajectory start ar points T = Inr P"
  shows "4 \<le> length points" and "length (trajectories P) = 4" and "total_time P = T"
proof -
  show len: "4 \<le> length points"
  proof (rule ccontr)
    assume "\<not> 4 \<le> length points"
    then have "length points < 4" by simp
    from PolygonalTrajectory_short [OF this] assms show False by simp
  qed
  from PolygonalTrajectory_ok [OF len, of start ar T] assms
  show "length (trajectories P) = 4" and "total_time P = T" by auto
qed

text \<open>
  C10: the PolygonalTrajectory constructor reads \<open>points[0..3]\<close> only. With four or
  more entries it builds four chained LinearTrajectory segments of duration
  \<open>total_time / 4\<close>: segment \<open>i\<close> ends at \<open>ar_position + points[i]\<close> and starts
  where segment \<open>i - 1\<close> ends, segment 0 at \<open>start_position\<close>; whatever follows the
  fourth entry changes nothing. With fewer than four entries it fails with IndexError.
\<close>

theorem polygonal_construction:
  "(4 \<le> length points \<longrightarrow>
      PolygonalTrajectory start ar points T =
        Inr \<lparr>total_time = T, trajectories =
          [LinearTrajectory start (vadd ar (points ! 0)) (T / 4),
           LinearTrajectory (vadd ar (points ! 0)) (vadd ar (points ! 1)) (T / 4),
           LinearTrajectory (vadd ar (points ! 1)) (vadd ar (points ! 2)) (T / 4),
           LinearTrajectory (vadd ar (points ! 2)) (vadd ar (points ! 3)) (T / 4)]\<rparr> \<and>
      (\<forall>extra. PolygonalTrajectory start ar (take 4 points @ extra) T =
         PolygonalTrajectory start ar points T)) \<and>
   (length points < 4 \<longrightarrow> PolygonalTrajectory start ar points T = Inl IndexError)"
proof (intro conjI impI allI)
  assume len: "4 \<le> length points"
  show "PolygonalTrajectory start ar points T =
        Inr \<lparr>total_time = T, trajectories =
          [LinearTrajectory start (vadd ar (points ! 0)) (T / 4),
           LinearTrajectory (vadd ar (points ! 0)) (vadd ar (points ! 1)) (T / 4),
           LinearTrajectory (vadd ar (points ! 1)) (vadd ar (points ! 2)) (T / 4),
           LinearTrajectory (vadd ar (points ! 2)) (vadd ar (points ! 3)) (T / 4)]\<rparr>"
    by (rule PolygonalTrajectory_ok [OF len])
  fix extra :: "vec3 list"
  let ?ps = "take 4 points @ extra"
  from len have l4: "length (take 4 points) = 4" by simp
  then have len': "4 \<le> length ?ps" by simp
  have nth: "?ps ! 0 = points ! 0" "?ps ! 1 = points ! 1" "?ps ! 2 = points ! 2"
    "?ps ! 3 = points ! 3"
    using l4 by (simp_all add: nth_append)
  show "PolygonalTrajectory start ar ?ps T = PolygonalTrajectory start ar points T"
    unfolding PolygonalTrajectory_ok [OF len] PolygonalTrajectory_ok [OF len'] nth ..
next
  assume "length points < 4"
  then show "PolygonalTrajectory start ar points T = Inl IndexError"
    by (rule PolygonalTrajectory_short)
qed

theorem polygonal_construction_witness:
  "4 \<le> length [(0, 0, 0), (1, 1, 0), (1, -1, 0), (0, 0, 0), (9, 9, 9 :: real)] \<and>
   PolygonalTrajectory (5, 5, 5) (1, 2, 3)
       [(0, 0, 0), (1, 1, 0), (1, -1, 0), (0, 0, 0), (9, 9, 9)] 12 =
     Inr \<lparr>total_time = 12, trajectories =
       [LinearTrajectory (5, 5, 5) (1, 2, 3) 3,
        LinearTrajectory (1, 2, 3) (2, 3, 3) 3,
        LinearTrajectory (2, 3, 3) (2, 1, 3) 3,
        LinearTrajectory (2, 1, 3) (1, 2, 3) 3]\<rparr> \<and>
   PolygonalTrajectory (5, 5, 5) (1, 2, 3)
       (take 4 [(0, 0, 0), (1, 1, 0), (1, -1, 0), (0, 0, 0), (9, 9, 9)] @ []) 12 =
     PolygonalTrajectory (5, 5, 5) (1, 2, 3)
       [(0, 0, 0), (1, 1, 0), (1, -1, 0), (0, 0, 0), (9, 9, 9)] 12 \<and>
   length [(0, 0, 0), (1, 1, 0), (1, -1, 0 :: real)] < 4 \<and>
   PolygonalTrajectory (5, 5, 5) (1, 2, 3) [(0, 0, 0), (1, 1, 0), (1, -1, 0)] 12 =
     Inl IndexError"
proof -
  let ?five = "[(0, 0, 0), (1, 1, 0), (1, -1, 0), (0, 0, 0), (9, 9, 9 :: real)]"
  let ?three = "[(0, 0, 0), (1, 1, 0), (1, -1, 0 :: real)]"
  have five: "4 \<le> length ?five" by simp
  have three: "length ?three < 4" by simp
  note a = polygonal_construction [of ?five "(5, 5, 5)" "(1, 2, 3)" 12]
  note b = polygonal_construction [of ?three "(5, 5, 5)" "(1, 2, 3)" 12]
  from a five have a1: "PolygonalTrajectory (5, 5, 5) (1, 2, 3) ?five 12 =
     Inr \<lparr>total_time = 12, trajectories =
       [LinearTrajectory (5, 5, 5) (1, 2, 3) 3,
        LinearTrajectory (1, 2, 3) (2, 3, 3) 3,
        LinearTrajectory (2, 3, 3) (2, 1, 3) 3,
        LinearTrajectory (2, 1, 3) (1, 2, 3) 3]\<rparr>"
    by simp
  from a five have a2: "PolygonalTrajectory (5, 5, 5) (1, 2, 3) (take 4 ?five @ []) 12 =
     PolygonalTrajectory (5, 5, 5) (1, 2, 3) ?five 12"
    by blast
  from b three have b1: "PolygonalTrajectory (5, 5, 5) (1, 2, 3) ?three 12 = Inl IndexError"
    by blast
  from five three a1 a2 b1 show ?thesis by blast
qed

subsection \<open>Segment selection of a PolygonalTrajectory\<close>

lemma select_trajectory_first_match:
  assumes len: "length (trajectories P) = 4"
    and i: "i < 4"
    and hit: "t \<le> (real i + 1) * total_time P / 4"
    and miss: "\<forall>j<i. \<not> t \<le> (real j + 1) * total_time P / 4"
  shows "select_trajectory P t = Inr (trajectories P ! i)"
proof -
  have m: "\<not> t \<le> (real j + 1) * total_time P / 4" if "j < i" for j
    using miss that by blast
  from i consider "i = 0" | "i = 1" | "i = 2" | "i = 3" by linarith
  then show ?thesis
  proof cases
    case 1
    with hit show ?thesis by (simp add: select_trajectory_four [OF len])
  next
    case 2
    with hit m [of 0] show ?thesis by (simp add: select_trajectory_four [OF len])
  next
    case 3
    with hit m [of 0] m [of 1] show ?thesis by (simp add: select_trajectory_four [OF len])
  next
    case 4
    with hit m [of 0] m [of 1] m [of 2] show ?thesis
      by (simp add: select_trajectory_four [OF len])
  qed
qed

lemma polygonal_queries_delegate:
  assumes "select_trajectory P t = Inr L"
  shows "polygonal_target_pose P t = Inr (linear_target_pose L (t / 4))"
    and "polygonal_target_velocity P t = Inr (linear_target_velocity L (t / 4))"
  using assms by (simp_all add: polygonal_target_pose_def polygonal_target_velocity_def)

text \<open>
  C1: both queries of a constructed PolygonalTrajectory delegate to the segment of the
  least index \<open>i\<close> in 0..3 with \<open>t <= (i+1)*T/4\<close>, queried at \<open>t / 4\<close>; every
  \<open>t\<close> in \<open>[0, T]\<close> has such an index; and for a positive duration, which is what a
  duration in seconds is, the query at \<open>t = T\<close> goes to the last segment (index 3).
\<close>

theorem polygonal_selection:
  assumes ctor: "PolygonalTrajectory start ar points T = Inr P"
  shows "(\<forall>i<4. t \<le> (real i + 1) * T / 4 \<and> (\<forall>j<i. \<not> t \<le> (real j + 1) * T / 4) \<longrightarrow>
            polygonal_target_pose P t = Inr (linear_target_pose (trajectories P ! i) (t / 4)) \<and>
            polygonal_target_velocity P t =
              Inr (linear_target_velocity (trajectories P ! i) (t / 4))) \<and>
         (0 \<le> t \<and> t \<le> T \<longrightarrow> (\<exists>i<4. t \<le> (real i + 1) * T / 4)) \<and>
         (0 < T \<longrightarrow>
            polygonal_target_pose P T = Inr (linear_target_pose (trajectories P ! 3) (T / 4)) \<and>
            polygonal_target_velocity P T =
              Inr (linear_target_velocity (trajectories P ! 3) (T / 4)))"
proof (intro conjI allI impI)
  note len = PolygonalTrajectory_Inr(2) [OF ctor]
  note tt = PolygonalTrajectory_Inr(3) [OF ctor]
  {
    fix i :: nat
    assume i: "i < 4"
      and h: "t \<le> (real i + 1) * T / 4 \<and> (\<forall>j<i. \<not> t \<le> (real j + 1) * T / 4)"
    from h have "select_trajectory P t = Inr (trajectories P ! i)"
      by (intro select_trajectory_first_match [OF len i]) (simp_all add: tt)
    then show "polygonal_target_pose P t = Inr (linear_target_pose (trajectories P ! i) (t / 4))"
      and "polygonal_target_velocity P t =
              Inr (linear_target_velocity (trajectories P ! i) (t / 4))"
      by (rule polygonal_queries_delegate)+
  }
  {
    assume "0 \<le> t \<and> t \<le> T"
    then have "t \<le> (real 3 + 1) * T / 4" by simp
    then show "\<exists>i<4. t \<le> (real i + 1) * T / 4" by (intro exI [of _ 3]) simp
  }
  {
    assume T: "0 < T"
    then have "select_trajectory P T = Inr (trajectories P ! 3)"
      by (simp add: select_trajectory_four [OF len] tt)
    then show "polygonal_target_pose P T = Inr (linear_target_pose (trajectories P ! 3) (T / 4))"
      and "polygonal_target_velocity P T =
              Inr (linear_target_velocity (trajectories P ! 3) (T / 4))"
      by (rule polygonal_queries_delegate)+
  }
qed

theorem polygonal_selection_witness:
  "\<exists>P. PolygonalTrajectory (0, 0, 0) (0, 0, 0) [(1, 0, 0), (1, 1, 0), (0, 1, 0), (0, 0, 0)] 4 =
          Inr P \<and>
        (1::nat) < 4 \<and> (2::real) \<le> (real 1 + 1) * 4 / 4 \<and> \<not> (2::real) \<le> (real 0 + 1) * 4 / 4 \<and>
        polygonal_target_pose P 2 = Inr (linear_target_pose (trajectories P ! 1) (2 / 4)) \<and>
        polygonal_target_velocity P 2 =
          Inr (linear_target_velocity (trajectories P ! 1) (2 / 4)) \<and>
        (0::real) \<le> 2 \<and> (2::real) \<le> 4 \<and> (\<exists>i<4. (2::real) \<le> (real i + 1) * 4 / 4) \<and>
        (0::real) < 4 \<and>
        polygonal_target_pose P 4 = Inr (linear_target_pose (trajectories P ! 3) (4 / 4)) \<and>
        polygonal_target_velocity P 4 =
          Inr (linear_target_velocity (trajectories P ! 3) (4 / 4))"
proof -
  let ?pts = "[(1, 0, 0), (1, 1, 0), (0, 1, 0), (0, 0, 0 :: real)]"
  have "4 \<le> length ?pts" by simp
  from PolygonalTrajectory_ok [OF this, of "(0, 0, 0)" "(0, 0, 0)" 4]
  obtain P where ctor: "PolygonalTrajectory (0, 0, 0) (0, 0, 0) ?pts 4 = Inr P" by blast
  note sel = polygonal_selection [OF ctor, of 2]
  have pre: "(2::real) \<le> (real 1 + 1) * 4 / 4 \<and> (\<forall>j<1. \<not> (2::real) \<le> (real j + 1) * 4 / 4)"
    by simp
  from sel pre have mid:
    "polygonal_target_pose P 2 = Inr (linear_target_pose (trajectories P ! 1) (2 / 4)) \<and>
     polygonal_target_velocity P 2 = Inr (linear_target_velocity (trajectories P ! 1) (2 / 4))"
    by (metis (no_types, lifting) one_less_numeral_iff semiring_norm(76))
  from sel have ex: "\<exists>i<4. (2::real) \<le> (real i + 1) * 4 / 4" by simp
  from sel have last:
    "polygonal_target_pose P 4 = Inr (linear_target_pose (trajectories P ! 3) (4 / 4)) \<and>
     polygonal_target_velocity P 4 = Inr (linear_target_velocity (trajectories P ! 3) (4 / 4))"
    by simp
  from ctor mid ex last show ?thesis by (intro exI [of _ P]) simp
qed

subsection \<open>Queries past the end of a PolygonalTrajectory\<close>

text \<open>
  C9: at a query time \<open>t > T\<close> both queries of a constructed PolygonalTrajectory
  delegate to the first segment (index 0) at \<open>t / 4\<close> and raise nothing. For a
  duration \<open>T \<ge> 0\<close> none of the loop's four tests succeeds and the loop returns
  its default, the first segment. (A negative duration gives the same outcome: there
  the first test may succeed, and it selects the first segment too.)
\<close>

theorem polygonal_past_end:
  assumes ctor: "PolygonalTrajectory start ar points T = Inr P" and late: "T < t"
  shows "polygonal_target_pose P t = Inr (linear_target_pose (trajectories P ! 0) (t / 4)) \<and>
         polygonal_target_velocity P t =
           Inr (linear_target_velocity (trajectories P ! 0) (t / 4)) \<and>
         (0 \<le> T \<longrightarrow> (\<forall>i<4. \<not> t \<le> (real i + 1) * T / 4) \<and>
            (\<forall>L. select_loop P t [0, 1, 2, 3] L = Inr L)) \<and>
         (T < 0 \<and> t \<le> T / 4 \<longrightarrow>
            (\<forall>L. select_loop P t [0, 1, 2, 3] L = Inr (trajectories P ! 0)))"
proof -
  note len = PolygonalTrajectory_Inr(2) [OF ctor]
  note tt = PolygonalTrajectory_Inr(3) [OF ctor]
  have sel: "select_trajectory P t = Inr (trajectories P ! 0)"
  proof (cases "0 \<le> T")
    case True
    with late have "\<not> t \<le> T / 4" "\<not> t \<le> 2 * T / 4" "\<not> t \<le> 3 * T / 4" "\<not> t \<le> 4 * T / 4"
      by simp_all
    then show ?thesis by (simp add: select_trajectory_four [OF len] tt)
  next
    case False
    then have "2 * T / 4 \<le> T / 4" "3 * T / 4 \<le> T / 4" "4 * T / 4 \<le> T / 4" by simp_all
    then show ?thesis
      by (cases "t \<le> T / 4") (simp_all add: select_trajectory_four [OF len] tt)
  qed
  have nomatch: "(\<forall>i<4. \<not> t \<le> (real i + 1) * T / 4) \<and>
      (\<forall>L. select_loop P t [0, 1, 2, 3] L = Inr L)" if T: "0 \<le> T"
  proof (intro conjI allI impI)
    fix i :: nat
    assume "i < 4"
    then have "real i \<le> 3" by simp
    then have "real i * T \<le> 3 * T" using T by (rule mult_right_mono)
    then have "(real i + 1) * T / 4 \<le> T" by (simp add: algebra_simps)
    with late show "\<not> t \<le> (real i + 1) * T / 4" by simp
  next
    fix L
    from T late have "\<not> t \<le> T / 4" "\<not> t \<le> 2 * T / 4" "\<not> t \<le> 3 * T / 4" "\<not> t \<le> 4 * T / 4"
      by simp_all
    then show "select_loop P t [0, 1, 2, 3] L = Inr L" by (simp add: tt)
  qed
  have first: "\<forall>L. select_loop P t [0, 1, 2, 3] L = Inr (trajectories P ! 0)"
    if "T < 0 \<and> t \<le> T / 4"
    using that len by (simp add: tt item_def)
  from polygonal_queries_delegate [OF sel] nomatch first show ?thesis by blast
qed

theorem polygonal_past_end_witness:
  "(\<exists>P. PolygonalTrajectory (0, 0, 0) (0, 0, 0) [(1, 0, 0), (1, 1, 0), (0, 1, 0), (0, 0, 0)] 4 =
          Inr P \<and> (4::real) < 5 \<and>
        polygonal_target_pose P 5 = Inr (linear_target_pose (trajectories P ! 0) (5 / 4)) \<and>
        polygonal_target_velocity P 5 =
          Inr (linear_target_velocity (trajectories P ! 0) (5 / 4)) \<and>
        (0::real) \<le> 4 \<and> (\<forall>i<4. \<not> (5::real) \<le> (real i + 1) * 4 / 4) \<and>
        (\<forall>L. select_loop P 5 [0, 1, 2, 3] L = Inr L)) \<and>
   (\<exists>P. PolygonalTrajectory (0, 0, 0) (0, 0, 0) [(1, 0, 0), (1, 1, 0), (0, 1, 0), (0, 0, 0)] (- 4) =
          Inr P \<and> (- 4::real) < - 2 \<and> (- 4::real) < 0 \<and> (- 2::real) \<le> - 4 / 4 \<and>
        polygonal_target_pose P (- 2) = Inr (linear_target_pose (trajectories P ! 0) (- 2 / 4)) \<and>
        polygonal_target_velocity P (- 2) =
          Inr (linear_target_velocity (trajectories P ! 0) (- 2 / 4)) \<and>
        (\<forall>L. select_loop P (- 2) [0, 1, 2, 3] L = Inr (trajectories P ! 0)))"
proof -
  let ?pts = "[(1, 0, 0), (1, 1, 0), (0, 1, 0), (0, 0, 0 :: real)]"
  have len: "4 \<le> length ?pts" by simp
  from PolygonalTrajectory_ok [OF len, of "(0, 0, 0)" "(0, 0, 0)" 4]
  obtain P where ctor: "PolygonalTrajectory (0, 0, 0) (0, 0, 0) ?pts 4 = Inr P" by blast
  have late: "(4::real) < 5" by simp
  from polygonal_past_end [OF ctor late] ctor have pos:
    "\<exists>P. PolygonalTrajectory (0, 0, 0) (0, 0, 0) ?pts 4 = Inr P \<and> (4::real) < 5 \<and>
        polygonal_target_pose P 5 = Inr (linear_target_pose (trajectories P ! 0) (5 / 4)) \<and>
        polygonal_target_velocity P 5 =
          Inr (linear_target_velocity (trajectories P ! 0) (5 / 4)) \<and>
        (0::real) \<le> 4 \<and> (\<forall>i<4. \<not> (5::real) \<le> (real i + 1) * 4 / 4) \<and>
        (\<forall>L. select_loop P 5 [0, 1, 2, 3] L = Inr L)"
    by (intro exI [of _ P]) simp
  from PolygonalTrajectory_ok [OF len, of "(0, 0, 0)" "(0, 0, 0)" "- 4"]
  obtain Q where ctor': "PolygonalTrajectory (0, 0, 0) (0, 0, 0) ?pts (- 4) = Inr Q" by blast
  have late': "(- 4::real) < - 2" by simp
  from polygonal_past_end [OF ctor' late'] ctor' have neg:
    "\<exists>P. PolygonalTrajectory (0, 0, 0) (0, 0, 0) ?pts (- 4) = Inr P \<and>
        (- 4::real) < - 2 \<and> (- 4::real) < 0 \<and> (- 2::real) \<le> - 4 / 4 \<and>
        polygonal_target_pose P (- 2) = Inr (linear_target_pose (trajectories P ! 0) (- 2 / 4)) \<and>
        polygonal_target_velocity P (- 2) =
          Inr (linear_target_velocity (trajectories P ! 0) (- 2 / 4)) \<and>
        (\<forall>L. select_loop P (- 2) [0, 1, 2, 3] L = Inr (trajectories P ! 0))"
    by (intro exI [of _ Q]) simp
  from pos neg show ?thesis by (rule conjI)
qed

subsection \<open>Orientation and angular velocity\<close>

lemma select_trajectory_total:
  assumes "PolygonalTrajectory start ar points T = Inr P"
  shows "\<exists>i<4. select_trajectory P t = Inr (trajectories P ! i)"
proof -
  note len = PolygonalTrajectory_Inr(2) [OF assms]
  let ?k = "if t \<le> total_time P / 4 then 0
      else if t \<le> 2 * total_time P / 4 then 1
      else if t \<le> 3 * total_time P / 4 then 2
      else if t \<le> 4 * total_time P / 4 then 3 else (0::nat)"
  have "?k < 4" by simp
  moreover have "select_trajectory P t = Inr (trajectories P ! ?k)"
    by (rule select_trajectory_four [OF len])
  ultimately show ?thesis by blast
qed

lemma segment_is_linear:
  assumes "PolygonalTrajectory start ar points T = Inr P" and "i < 4"
  shows "\<exists>s g. trajectories P ! i = LinearTrajectory s g (T / 4)"
proof -
  note len = PolygonalTrajectory_Inr(1) [OF assms(1)]
  from assms(1) have segs: "trajectories P =
      [LinearTrajectory start (vadd ar (points ! 0)) (T / 4),
       LinearTrajectory (vadd ar (points ! 0)) (vadd ar (points ! 1)) (T / 4),
       LinearTrajectory (vadd ar (points ! 1)) (vadd ar (points ! 2)) (T / 4),
       LinearTrajectory (vadd ar (points ! 2)) (vadd ar (points ! 3)) (T / 4)]"
    unfolding PolygonalTrajectory_ok [OF len] by auto
  from assms(2) consider "i = 0" | "i = 1" | "i = 2" | "i = 3" by linarith
  then show ?thesis
  proof cases
    case 1
    then have "trajectories P ! i = LinearTrajectory start (vadd ar (points ! 0)) (T / 4)"
      by (simp add: segs)
    then show ?thesis by blast
  next
    case 2
    then have "trajectories P ! i =
        LinearTrajectory (vadd ar (points ! 0)) (vadd ar (points ! 1)) (T / 4)"
      by (simp add: segs)
    then show ?thesis by blast
  next
    case 3
    then have "trajectories P ! i =
        LinearTrajectory (vadd ar (points ! 1)) (vadd ar (points ! 2)) (T / 4)"
      by (simp add: segs)
    then show ?thesis by blast
  next
    case 4
    then have "trajectories P ! i =
        LinearTrajectory (vadd ar (points ! 2)) (vadd ar (points ! 3)) (T / 4)"
      by (simp add: segs)
    then show ?thesis by blast
  qed
qed

lemma linear_orientation:
  "snd (linear_target_pose (LinearTrajectory s g T) t) = (0, 1, 0, 0)"
  "snd (linear_target_velocity (LinearTrajectory s g T) t) = (0, 0, 0)"
  by (simp_all add: linear_target_pose_def linear_target_velocity_def LinearTrajectory_def
      create_route_fields Let_def)

lemma circular_orientation:
  assumes "CircularTrajectory c r T = Inr C"
  shows "snd (circular_target_pose C t) = (0, 1, 0, 0)"
    and "snd (circular_target_velocity C t) = (0, 0, 0)"
  using assms
  by (auto simp add: CircularTrajectory_def circular_target_pose_def
      circular_target_velocity_def Let_def split: if_splits)

lemma polygonal_orientation:
  assumes ctor: "PolygonalTrajectory start ar points T = Inr P"
  shows "\<exists>p. polygonal_target_pose P t = Inr (p, (0, 1, 0, 0))"
    and "\<exists>v. polygonal_target_velocity P t = Inr (v, (0, 0, 0))"
proof -
  from select_trajectory_total [OF ctor, of t]
  obtain i where i: "i < 4" and sel: "select_trajectory P t = Inr (trajectories P ! i)"
    by blast
  from segment_is_linear [OF ctor i]
  obtain s g where seg: "trajectories P ! i = LinearTrajectory s g (T / 4)" by blast
  have "polygonal_target_pose P t =
      Inr (fst (linear_target_pose (LinearTrajectory s g (T / 4)) (t / 4)), (0, 1, 0, 0))"
    unfolding polygonal_queries_delegate(1) [OF sel] seg
    by (simp add: prod_eq_iff linear_orientation(1))
  then show "\<exists>p. polygonal_target_pose P t = Inr (p, (0, 1, 0, 0))" by blast
  have "polygonal_target_velocity P t =
      Inr (fst (linear_target_velocity (LinearTrajectory s g (T / 4)) (t / 4)), (0, 0, 0))"
    unfolding polygonal_queries_delegate(2) [OF sel] seg
    by (simp add: prod_eq_iff linear_orientation(2))
  then show "\<exists>v. polygonal_target_velocity P t = Inr (v, (0, 0, 0))" by blast
qed

text \<open>
  C8: for every variant, constructed with any arguments its constructor accepts, and
  every query time, \<open>target_pose\<close> returns the orientation \<open>[0, 1, 0, 0]\<close> and
  \<open>target_velocity\<close> returns the angular part \<open>[0, 0, 0]\<close>.
\<close>

theorem orientation_fixed:
  "(\<exists>p v. target_pose (Linear (LinearTrajectory s g T)) t = Inr (p, (0, 1, 0, 0)) \<and>
          target_velocity (Linear (LinearTrajectory s g T)) t = Inr (v, (0, 0, 0))) \<and>
   (\<forall>C. CircularTrajectory c r T = Inr C \<longrightarrow>
      (\<exists>p v. target_pose (Circular C) t = Inr (p, (0, 1, 0, 0)) \<and>
             target_velocity (Circular C) t = Inr (v, (0, 0, 0)))) \<and>
   (\<forall>P. PolygonalTrajectory start ar points T = Inr P \<longrightarrow>
      (\<exists>p v. target_pose (Polygonal P) t = Inr (p, (0, 1, 0, 0)) \<and>
             target_velocity (Polygonal P) t = Inr (v, (0, 0, 0))))"
proof (intro conjI allI impI)
  have "target_pose (Linear (LinearTrajectory s g T)) t =
      Inr (fst (linear_target_pose (LinearTrajectory s g T) t), (0, 1, 0, 0))"
    by (simp add: prod_eq_iff linear_orientation(1))
  moreover have "target_velocity (Linear (LinearTrajectory s g T)) t =
      Inr (fst (linear_target_velocity (LinearTrajectory s g T) t), (0, 0, 0))"
    by (simp add: prod_eq_iff linear_orientation(2))
  ultimately show "\<exists>p v. target_pose (Linear (LinearTrajectory s g T)) t = Inr (p, (0, 1, 0, 0)) \<and>
          target_velocity (Linear (LinearTrajectory s g T)) t = Inr (v, (0, 0, 0))"
    by blast
next
  fix C
  assume ctor: "CircularTrajectory c r T = Inr C"
  have "target_pose (Circular C) t = Inr (fst (circular_target_pose C t), (0, 1, 0, 0))"
    by (simp add: prod_eq_iff circular_orientation(1) [OF ctor])
  moreover have "target_velocity (Circular C) t =
      Inr (fst (circular_target_velocity C t), (0, 0, 0))"
    by (simp add: prod_eq_iff circular_orientation(2) [OF ctor])
  ultimately show "\<exists>p v. target_pose (Circular C) t = Inr (p, (0, 1, 0, 0)) \<and>
             target_velocity (Circular C) t = Inr (v, (0, 0, 0))"
    by blast
next
  fix P
  assume ctor: "PolygonalTrajectory start ar points T = Inr P"
  from polygonal_orientation [OF ctor, of t]
  show "\<exists>p v. target_pose (Polygonal P) t = Inr (p, (0, 1, 0, 0)) \<and>
             target_velocity (Polygonal P) t = Inr (v, (0, 0, 0))"
    by auto
qed

theorem orientation_fixed_witness:
  "(\<exists>p v. target_pose (Linear (LinearTrajectory (0, 0, 0) (1, 0, 0) 3)) 1 = Inr (p, (0, 1, 0, 0)) \<and>
          target_velocity (Linear (LinearTrajectory (0, 0, 0) (1, 0, 0) 3)) 1 = Inr (v, (0, 0, 0))) \<and>
   (\<exists>C. CircularTrajectory (0, 0, 1) 2 7 = Inr C \<and>
      (\<exists>p v. target_pose (Circular C) 1 = Inr (p, (0, 1, 0, 0)) \<and>
             target_velocity (Circular C) 1 = Inr (v, (0, 0, 0)))) \<and>
   (\<exists>P. PolygonalTrajectory (0, 0, 0) (0, 0, 0) [(1, 0, 0), (1, 1, 0), (0, 1, 0), (0, 0, 0)] 12 =
          Inr P \<and>
      (\<exists>p v. target_pose (Polygonal P) 1 = Inr (p, (0, 1, 0, 0)) \<and>
             target_velocity (Polygonal P) 1 = Inr (v, (0, 0, 0))))"
proof -
  let ?pts = "[(1, 0, 0), (1, 1, 0), (0, 1, 0), (0, 0, 0 :: real)]"
  have "(7::real) \<noteq> 0" by simp
  from CircularTrajectory_fields [OF this, of "(0, 0, 1)" 2]
  obtain C where c: "CircularTrajectory (0, 0, 1) 2 7 = Inr C" by blast
  have "4 \<le> length ?pts" by simp
  from PolygonalTrajectory_ok [OF this, of "(0, 0, 0)" "(0, 0, 0)" 12]
  obtain P where p: "PolygonalTrajectory (0, 0, 0) (0, 0, 0) ?pts 12 = Inr P" by blast
  note w = orientation_fixed [of "(0, 0, 0)" "(1, 0, 0)" 3 1 "(0, 0, 1)" 2]
  note w' = orientation_fixed [of "(0, 0, 0)" "(1, 0, 0)" 7 1 "(0, 0, 1)" 2]
  note w'' = orientation_fixed [of "(0, 0, 0)" "(1, 0, 0)" 12 1 "(0, 0, 1)" 2 "(0, 0, 0)"
      "(0, 0, 0)" ?pts]
  from w have a: "\<exists>p v. target_pose (Linear (LinearTrajectory (0, 0, 0) (1, 0, 0) 3)) 1 =
          Inr (p, (0, 1, 0, 0)) \<and>
        target_velocity (Linear (LinearTrajectory (0, 0, 0) (1, 0, 0) 3)) 1 = Inr (v, (0, 0, 0))"
    by blast
  from w' c have b: "\<exists>C. CircularTrajectory (0, 0, 1) 2 7 = Inr C \<and>
      (\<exists>p v. target_pose (Circular C) 1 = Inr (p, (0, 1, 0, 0)) \<and>
             target_velocity (Circular C) 1 = Inr (v, (0, 0, 0)))"
    by blast
  from w'' p have d: "\<exists>P. PolygonalTrajectory (0, 0, 0) (0, 0, 0) ?pts 12 = Inr P \<and>
      (\<exists>p v. target_pose (Polygonal P) 1 = Inr (p, (0, 1, 0, 0)) \<and>
             target_velocity (Polygonal P) 1 = Inr (v, (0, 0, 0)))"
    by blast
  from a b d show ?thesis by blast
qed

subsection \<open>What the constructors check\<close>

text \<open>
  C2, as the code has it: no constructor validates the duration, so construction with a
  duration \<open>\<le> 0\<close> does not fail with a parameter error. For every negative duration
  \<open>T\<close> with \<open>1 / 2 ^ 500 \<le> - T \<le> 2 ^ 500\<close> the three constructors return a
  trajectory that stores \<open>T\<close> (the PolygonalTrajectory given four points). With the
  duration 0 a LinearTrajectory is built with a non-finite acceleration, a
  PolygonalTrajectory is built, and the CircularTrajectory constructor raises
  ZeroDivisionError from its division. The queries validate nothing; the one lookup
  they make, \<open>self.trajectories[i]\<close> of a PolygonalTrajectory, succeeds on every
  constructed trajectory, whatever its duration \<open>D\<close> and the query time.
\<close>

theorem construction_unvalidated:
  assumes lo: "1 / 2 ^ 500 \<le> - T" and hi: "- T \<le> 2 ^ 500"
  shows "T < 0 \<and>
         total_time (LinearTrajectory s g T) = T \<and>
         (\<exists>C. CircularTrajectory c r T = Inr C \<and> total_time C = T) \<and>
         (4 \<le> length points \<longrightarrow>
            (\<exists>P. PolygonalTrajectory start ar points T = Inr P \<and> total_time P = T)) \<and>
         acceleration (LinearTrajectory s g 0) = NonFinite \<and>
         CircularTrajectory c r 0 = Inl ZeroDivisionError \<and>
         (4 \<le> length points \<longrightarrow> (\<exists>P. PolygonalTrajectory start ar points 0 = Inr P)) \<and>
         (\<forall>D P. PolygonalTrajectory start ar points D = Inr P \<longrightarrow>
            (\<exists>i<4. select_trajectory P t = Inr (trajectories P ! i)))"
proof -
  have "(0::real) < 1 / 2 ^ 500" by simp
  with lo have neg: "T < 0" by linarith
  then have T0: "T \<noteq> 0" by simp
  have lin: "total_time (LinearTrajectory s g T) = T"
    by (simp add: LinearTrajectory_def create_route_fields)
  from CircularTrajectory_fields [OF T0, of c r]
  have circ: "\<exists>C. CircularTrajectory c r T = Inr C \<and> total_time C = T" by simp
  have poly: "\<exists>P. PolygonalTrajectory start ar points D = Inr P \<and> total_time P = D"
    if "4 \<le> length points" for D
    using PolygonalTrajectory_ok [OF that, of start ar D] by simp
  have lin0: "acceleration (LinearTrajectory s g 0) = NonFinite"
    by (cases s, cases g) (simp add: LinearTrajectory_def create_route_def Let_def)
  have circ0: "CircularTrajectory c r 0 = Inl ZeroDivisionError"
    by (simp add: CircularTrajectory_def)
  have look: "\<exists>i<4. select_trajectory P t = Inr (trajectories P ! i)"
    if "PolygonalTrajectory start ar points D = Inr P" for D P
    using that by (rule select_trajectory_total)
  from neg lin circ poly [of T] poly [of 0] lin0 circ0 look show ?thesis by blast
qed

theorem construction_unvalidated_witness:
  "(1::real) / 2 ^ 500 \<le> - (- 1) \<and> - (- 1) \<le> (2::real) ^ 500 \<and> (- 1::real) < 0 \<and>
   total_time (LinearTrajectory (0, 0, 0) (1, 0, 0) (- 1)) = - 1 \<and>
   (\<exists>C. CircularTrajectory (0, 0, 0) 1 (- 1) = Inr C \<and> total_time C = - 1) \<and>
   4 \<le> length [(1, 0, 0), (1, 1, 0), (0, 1, 0), (0, 0, 0 :: real)] \<and>
   (\<exists>P. PolygonalTrajectory (0, 0, 0) (0, 0, 0) [(1, 0, 0), (1, 1, 0), (0, 1, 0), (0, 0, 0)] (- 1) =
          Inr P \<and> total_time P = - 1) \<and>
   acceleration (LinearTrajectory (0, 0, 0) (1, 0, 0) 0) = NonFinite \<and>
   CircularTrajectory (0, 0, 0) 1 0 = Inl ZeroDivisionError \<and>
   (\<exists>P. PolygonalTrajectory (0, 0, 0) (0, 0, 0) [(1, 0, 0), (1, 1, 0), (0, 1, 0), (0, 0, 0)] 0 =
          Inr P) \<and>
   (\<exists>P. PolygonalTrajectory (0, 0, 0) (0, 0, 0) [(1, 0, 0), (1, 1, 0), (0, 1, 0), (0, 0, 0)] 12 =
          Inr P \<and> (\<exists>i<4. select_trajectory P 5 = Inr (trajectories P ! i)))"
proof -
  let ?pts = "[(1, 0, 0), (1, 1, 0), (0, 1, 0), (0, 0, 0 :: real)]"
  have one: "(1::real) \<le> 2 ^ 500" by (rule one_le_power) simp
  then have lo: "(1::real) / 2 ^ 500 \<le> - (- 1)" by (simp add: field_simps)
  from one have hi: "- (- 1) \<le> (2::real) ^ 500" by simp
  have len: "4 \<le> length ?pts" by simp
  note w = construction_unvalidated [OF lo hi, of "(0, 0, 0)" "(1, 0, 0)" "(0, 0, 0)" 1
      ?pts "(0, 0, 0)" "(0, 0, 0)" 5]
  from PolygonalTrajectory_ok [OF len, of "(0, 0, 0)" "(0, 0, 0)" 12]
  obtain P where ctor: "PolygonalTrajectory (0, 0, 0) (0, 0, 0) ?pts 12 = Inr P" by blast
  with w have q: "\<exists>P. PolygonalTrajectory (0, 0, 0) (0, 0, 0) ?pts 12 = Inr P \<and>
      (\<exists>i<4. select_trajectory P 5 = Inr (trajectories P ! i))"
    by blast
  from w len have rest: "(- 1::real) < 0 \<and>
      total_time (LinearTrajectory (0, 0, 0) (1, 0, 0) (- 1)) = - 1 \<and>
      (\<exists>C. CircularTrajectory (0, 0, 0) 1 (- 1) = Inr C \<and> total_time C = - 1) \<and>
      (\<exists>P. PolygonalTrajectory (0, 0, 0) (0, 0, 0) ?pts (- 1) = Inr P \<and> total_time P = - 1) \<and>
      acceleration (LinearTrajectory (0, 0, 0) (1, 0, 0) 0) = NonFinite \<and>
      CircularTrajectory (0, 0, 0) 1 0 = Inl ZeroDivisionError \<and>
      (\<exists>P. PolygonalTrajectory (0, 0, 0) (0, 0, 0) ?pts 0 = Inr P)"
    by blast
  from lo hi len q rest show ?thesis by blast
qed

text \<open>
  The claim fails at a duration of \<open>- 1\<close>: all three constructors return a trajectory
  (the CircularTrajectory with angular acceleration \<open>8 * pi\<close>), none fails.
\<close>

theorem construction_unvalidated_counterexample:
  "(- 1::real) \<le> 0 \<and>
   total_time (LinearTrajectory (0, 0, 0) (1, 0, 0) (- 1)) = - 1 \<and>
   acceleration (LinearTrajectory (0, 0, 0) (1, 0, 0) (- 1)) = Arr (4, 0, 0) \<and>
   CircularTrajectory (0, 0, 0) 1 (- 1) =
     Inr \<lparr>total_time = - 1, center_position = (0, 0, 0), radius = 1,
          angular_acceleration = 8 * pi, angular_v_max = - (4 * pi),
          orientation_c = (0, 1, 0, 0)\<rparr> \<and>
   PolygonalTrajectory (0, 0, 0) (0, 0, 0) [(1, 0, 0), (1, 1, 0), (0, 1, 0), (0, 0, 0)] (- 1) =
     Inr \<lparr>total_time = - 1, trajectories =
       [LinearTrajectory (0, 0, 0) (1, 0, 0) (- 1 / 4),
        LinearTrajectory (1, 0, 0) (1, 1, 0) (- 1 / 4),
        LinearTrajectory (1, 1, 0) (0, 1, 0) (- 1 / 4),
        LinearTrajectory (0, 1, 0) (0, 0, 0) (- 1 / 4)]\<rparr>"
  by (simp add: PolygonalTrajectory_def item_def CircularTrajectory_def
      LinearTrajectory_def create_route_def Let_def)

subsection \<open>One-sided limits of a function defined by two branches\<close>

lemma branches_left:
  fixes g h :: "real \<Rightarrow> 'a::topological_space"
  assumes "isCont g a"
  shows "((\<lambda>t. if t \<le> a then g t else h t) \<longlongrightarrow> g a) (at_left a)"
proof -
  have ev: "eventually (\<lambda>t. (if t \<le> a then g t else h t) = g t) (at_left a)"
    by (simp add: eventually_at_filter)
  from assms have "(g \<longlongrightarrow> g a) (at_left a)"
    unfolding isCont_def by (rule tendsto_mono [rotated]) (simp add: at_le)
  with tendsto_cong [OF ev] show ?thesis by blast
qed

lemma branches_right:
  fixes g h :: "real \<Rightarrow> 'a::topological_space"
  assumes "isCont h a"
  shows "((\<lambda>t. if t \<le> a then g t else h t) \<longlongrightarrow> h a) (at_right a)"
proof -
  have ev: "eventually (\<lambda>t. (if t \<le> a then g t else h t) = h t) (at_right a)"
    by (simp add: eventually_at_filter)
  from assms have "(h \<longlongrightarrow> h a) (at_right a)"
    unfolding isCont_def by (rule tendsto_mono [rotated]) (simp add: at_le)
  with tendsto_cong [OF ev] show ?thesis by blast
qed

lemma branches_isCont:
  fixes g h :: "real \<Rightarrow> 'a::topological_space"
  assumes g: "isCont g a" and h: "isCont h a" and agree: "h a = g a"
  shows "isCont (\<lambda>t. if t \<le> a then g t else h t) a"
proof -
  let ?f = "\<lambda>t. if t \<le> a then g t else h t"
  have l: "(?f \<longlongrightarrow> ?f a) (at_left a)" using branches_left [OF g, of h] by simp
  have r: "(?f \<longlongrightarrow> ?f a) (at_right a)" using branches_right [OF h, of g] agree by simp
  from l r show ?thesis
    unfolding isCont_def by (rule filterlim_split_at)
qed

subsection \<open>Continuity of the velocity at the midpoint\<close>

lemma linear_velocity_midpoint:
  assumes T: "0 < T"
  shows "\<exists>f m. (\<forall>t. fst (linear_target_velocity (LinearTrajectory s g T) t) = Arr (f t)) \<and>
          v_max (LinearTrajectory s g T) = Arr m \<and>
          (f \<longlongrightarrow> m) (at_left (T / 2)) \<and> (f \<longlongrightarrow> m) (at_right (T / 2)) \<and>
          f (T / 2) = m \<and> isCont f (T / 2)"
proof -
  obtain s1 s2 s3 where s: "s = (s1, s2, s3)" by (cases s)
  obtain g1 g2 g3 where g: "g = (g1, g2, g3)" by (cases g)
  from T have T0: "T \<noteq> 0" by simp
  define k1 where "k1 = 1 / T ^ 2 * (4 * (g1 - s1))"
  define k2 where "k2 = 1 / T ^ 2 * (4 * (g2 - s2))"
  define k3 where "k3 = 1 / T ^ 2 * (4 * (g3 - s3))"
  define up :: "real \<Rightarrow> vec3" where "up = (\<lambda>t. (t * k1, t * k2, t * k3))"
  define m :: vec3 where "m = (T / 2 * k1, T / 2 * k2, T / 2 * k3)"
  define down :: "real \<Rightarrow> vec3" where
    "down = (\<lambda>t. (T / 2 * k1 - (t - T / 2) * k1, T / 2 * k2 - (t - T / 2) * k2,
                  T / 2 * k3 - (t - T / 2) * k3))"
  define f where "f = (\<lambda>t. if t \<le> T / 2 then up t else down t)"
  have acc: "acceleration (LinearTrajectory s g T) = Arr (k1, k2, k3)"
    by (simp add: LinearTrajectory_def create_route_fields T0 s g k1_def k2_def k3_def)
  have vm: "v_max (LinearTrajectory s g T) = Arr m"
    by (simp add: LinearTrajectory_def create_route_fields T0 s g k1_def k2_def k3_def m_def)
  have tt: "total_time (LinearTrajectory s g T) = T"
    by (simp add: LinearTrajectory_def create_route_fields)
  have val: "fst (linear_target_velocity (LinearTrajectory s g T) t) = Arr (f t)" for t
    by (simp add: linear_target_velocity_def acc vm tt f_def up_def down_def m_def)
  have cu: "isCont up (T / 2)" unfolding up_def by (intro isCont_Pair continuous_intros)
  have cd: "isCont down (T / 2)" unfolding down_def by (intro isCont_Pair continuous_intros)
  have um: "up (T / 2) = m" by (simp add: up_def m_def)
  have dm: "down (T / 2) = m" by (simp add: down_def m_def)
  have l: "(f \<longlongrightarrow> m) (at_left (T / 2))"
    using branches_left [OF cu, of down] by (simp add: f_def um)
  have r: "(f \<longlongrightarrow> m) (at_right (T / 2))"
    using branches_right [OF cd, of up] by (simp add: f_def dm)
  have fm: "f (T / 2) = m" by (simp add: f_def um)
  have c: "isCont f (T / 2)"
    unfolding f_def by (rule branches_isCont [OF cu cd]) (simp add: um dm)
  from val vm l r fm c show ?thesis by blast
qed

lemma circular_velocity_midpoint:
  assumes T: "0 < T"
  shows "\<exists>C. CircularTrajectory c r T = Inr C \<and>
          (circular_theta_dot C \<longlongrightarrow> angular_v_max C) (at_left (T / 2)) \<and>
          (circular_theta_dot C \<longlongrightarrow> angular_v_max C) (at_right (T / 2)) \<and>
          circular_theta_dot C (T / 2) = angular_v_max C \<and>
          (\<exists>f. (\<forall>t. fst (circular_target_velocity C t) = Arr (f t)) \<and> isCont f (T / 2))"
proof -
  from T have T0: "T \<noteq> 0" by simp
  define aa where "aa = 8 * pi / T ^ 2"
  define C where "C = \<lparr>total_time = T, center_position = c, radius = r,
         angular_acceleration = aa, angular_v_max = (T / 2) * aa,
         orientation_c = (0, 1, 0, 0)\<rparr>"
  have ctor: "CircularTrajectory c r T = Inr C"
    unfolding C_def aa_def by (rule CircularTrajectory_fields [OF T0])
  define du where "du = (\<lambda>t. aa * t)"
  define dd where "dd = (\<lambda>t. (T / 2) * aa - aa * (t - T / 2))"
  define tu where "tu = (\<lambda>t. 0.5 * aa * t ^ 2)"
  define td where "td = (\<lambda>t. pi + (T / 2) * aa * (t - T / 2) - 0.5 * aa * (t - T / 2) ^ 2)"
  have dot: "circular_theta_dot C = (\<lambda>t. if t \<le> T / 2 then du t else dd t)"
    by (rule ext) (simp add: circular_theta_dot_def C_def du_def dd_def Let_def)
  have theta: "circular_theta C = (\<lambda>t. if t \<le> T / 2 then tu t else td t)"
    by (rule ext) (simp add: circular_theta_def C_def tu_def td_def Let_def)
  have cdu: "isCont du (T / 2)" unfolding du_def by (intro continuous_intros)
  have cdd: "isCont dd (T / 2)" unfolding dd_def by (intro continuous_intros)
  have ctu: "isCont tu (T / 2)" unfolding tu_def by (intro continuous_intros)
  have ctd: "isCont td (T / 2)" unfolding td_def by (intro continuous_intros)
  have avm: "angular_v_max C = (T / 2) * aa" by (simp add: C_def)
  have dum: "du (T / 2) = (T / 2) * aa" by (simp add: du_def)
  have ddm: "dd (T / 2) = (T / 2) * aa" by (simp add: dd_def)
  have tum: "tu (T / 2) = pi" using T0 by (simp add: tu_def aa_def power2_eq_square)
  have tdm: "td (T / 2) = pi" by (simp add: td_def)
  have l: "(circular_theta_dot C \<longlongrightarrow> angular_v_max C) (at_left (T / 2))"
    using branches_left [OF cdu, of dd] by (simp add: dot avm dum)
  have r: "(circular_theta_dot C \<longlongrightarrow> angular_v_max C) (at_right (T / 2))"
    using branches_right [OF cdd, of du] by (simp add: dot avm ddm)
  have v: "circular_theta_dot C (T / 2) = angular_v_max C" by (simp add: dot avm dum)
  have cdot: "isCont (circular_theta_dot C) (T / 2)"
    unfolding dot by (rule branches_isCont [OF cdu cdd]) (simp add: dum ddm)
  have cth: "isCont (circular_theta C) (T / 2)"
    unfolding theta by (rule branches_isCont [OF ctu ctd]) (simp add: tum tdm)
  define f :: "real \<Rightarrow> vec3" where
    "f = (\<lambda>t. (r * circular_theta_dot C t * (- sin (circular_theta C t)),
               r * circular_theta_dot C t * cos (circular_theta C t),
               r * circular_theta_dot C t * 0))"
  have val: "fst (circular_target_velocity C t) = Arr (f t)" for t
    by (simp add: circular_target_velocity_def Let_def f_def) (simp add: C_def)
  have cf: "isCont f (T / 2)"
    unfolding f_def by (intro isCont_Pair continuous_intros cdot cth)
  from ctor l r v val cf show ?thesis by blast
qed

text \<open>
  C7: for a LinearTrajectory and a CircularTrajectory of positive duration the velocity
  is continuous at \<open>total_time / 2\<close>. The linear velocity tends to \<open>v_max\<close> from the
  left (the acceleration branch) and from the right (the deceleration branch) and is
  \<open>v_max\<close> there; the angular rate \<open>theta_dot\<close> does the same with
  \<open>angular_v_max\<close>, and the circular twist's linear part is continuous there.
\<close>

theorem velocity_midpoint_continuous:
  assumes "0 < T"
  shows "(\<exists>f m. (\<forall>t. fst (linear_target_velocity (LinearTrajectory s g T) t) = Arr (f t)) \<and>
          v_max (LinearTrajectory s g T) = Arr m \<and>
          (f \<longlongrightarrow> m) (at_left (T / 2)) \<and> (f \<longlongrightarrow> m) (at_right (T / 2)) \<and>
          f (T / 2) = m \<and> isCont f (T / 2)) \<and>
         (\<exists>C. CircularTrajectory c r T = Inr C \<and>
          (circular_theta_dot C \<longlongrightarrow> angular_v_max C) (at_left (T / 2)) \<and>
          (circular_theta_dot C \<longlongrightarrow> angular_v_max C) (at_right (T / 2)) \<and>
          circular_theta_dot C (T / 2) = angular_v_max C \<and>
          (\<exists>f. (\<forall>t. fst (circular_target_velocity C t) = Arr (f t)) \<and> isCont f (T / 2)))"
  using linear_velocity_midpoint [OF assms] circular_velocity_midpoint [OF assms]
  by (rule conjI)

theorem velocity_midpoint_continuous_witness:
  "(0::real) < 2 \<and>
   (\<exists>f m. (\<forall>t. fst (linear_target_velocity (LinearTrajectory (0, 0, 0) (1, 0, 0) 2) t) = Arr (f t)) \<and>
          v_max (LinearTrajectory (0, 0, 0) (1, 0, 0) 2) = Arr m \<and>
          (f \<longlongrightarrow> m) (at_left (2 / 2)) \<and> (f \<longlongrightarrow> m) (at_right (2 / 2)) \<and>
          f (2 / 2) = m \<and> isCont f (2 / 2)) \<and>
   (\<exists>C. CircularTrajectory (0, 0, 1) 3 2 = Inr C \<and>
          (circular_theta_dot C \<longlongrightarrow> angular_v_max C) (at_left (2 / 2)) \<and>
          (circular_theta_dot C \<longlongrightarrow> angular_v_max C) (at_right (2 / 2)) \<and>
          circular_theta_dot C (2 / 2) = angular_v_max C \<and>
          (\<exists>f. (\<forall>t. fst (circular_target_velocity C t) = Arr (f t)) \<and> isCont f (2 / 2)))"
proof -
  have pos: "(0::real) < 2" by simp
  from velocity_midpoint_continuous [OF pos, of "(0, 0, 0)" "(1, 0, 0)" "(0, 0, 1)" 3] pos
  show ?thesis by (rule conjI [rotated])
qed

subsection \<open>Derivative of a function defined by two branches\<close>

lemma branches_DERIV_before:
  fixes g h :: "real \<Rightarrow> real"
  assumes "x < a" and "DERIV g x :> D"
  shows "DERIV (\<lambda>t. if t \<le> a then g t else h t) x :> D"
  using assms(2)
proof (rule has_field_derivative_transform_within_open)
  show "open {..<a}" by simp
  show "x \<in> {..<a}" using assms(1) by simp
  show "g t = (if t \<le> a then g t else h t)" if "t \<in> {..<a}" for t using that by simp
qed

lemma branches_DERIV_after:
  fixes g h :: "real \<Rightarrow> real"
  assumes "a < x" and "DERIV h x :> D"
  shows "DERIV (\<lambda>t. if t \<le> a then g t else h t) x :> D"
  using assms(2)
proof (rule has_field_derivative_transform_within_open)
  show "open {a<..}" by simp
  show "x \<in> {a<..}" using assms(1) by simp
  show "h t = (if t \<le> a then g t else h t)" if "t \<in> {a<..}" for t using that by simp
qed

lemma branches_DERIV_at:
  fixes g h :: "real \<Rightarrow> real"
  assumes g: "DERIV g a :> D" and h: "DERIV h a :> D" and agree: "h a = g a"
  shows "DERIV (\<lambda>t. if t \<le> a then g t else h t) a :> D"
proof -
  let ?f = "\<lambda>t. if t \<le> a then g t else h t"
  from g have gl: "((\<lambda>y. (g y - g a) / (y - a)) \<longlongrightarrow> D) (at_left a)"
    unfolding has_field_derivative_iff by (rule tendsto_mono [rotated]) (simp add: at_le)
  from h have hr: "((\<lambda>y. (h y - h a) / (y - a)) \<longlongrightarrow> D) (at_right a)"
    unfolding has_field_derivative_iff by (rule tendsto_mono [rotated]) (simp add: at_le)
  have evl: "eventually (\<lambda>y. (?f y - ?f a) / (y - a) = (g y - g a) / (y - a)) (at_left a)"
    by (simp add: eventually_at_filter)
  have evr: "eventually (\<lambda>y. (?f y - ?f a) / (y - a) = (h y - h a) / (y - a)) (at_right a)"
    by (simp add: eventually_at_filter agree)
  from gl tendsto_cong [OF evl]
  have l: "((\<lambda>y. (?f y - ?f a) / (y - a)) \<longlongrightarrow> D) (at_left a)" by blast
  from hr tendsto_cong [OF evr]
  have r: "((\<lambda>y. (?f y - ?f a) / (y - a)) \<longlongrightarrow> D) (at_right a)" by blast
  from l r show ?thesis
    unfolding has_field_derivative_iff by (rule filterlim_split_at)
qed

lemma branches_DERIV:
  fixes g h :: "real \<Rightarrow> real"
  assumes g: "x \<le> a \<Longrightarrow> DERIV g x :> D" and h: "a \<le> x \<Longrightarrow> DERIV h x :> D"
    and agree: "h a = g a"
  shows "DERIV (\<lambda>t. if t \<le> a then g t else h t) x :> D"
proof -
  consider "x < a" | "x = a" | "a < x" by linarith
  then show ?thesis
  proof cases
    case 1
    then show ?thesis using g by (intro branches_DERIV_before) simp_all
  next
    case 2
    then show ?thesis using g h agree by (simp add: branches_DERIV_at)
  next
    case 3
    then show ?thesis using h by (intro branches_DERIV_after) simp_all
  qed
qed

subsection \<open>Velocity as the derivative of the position: Linear and Circular\<close>

text \<open>
  The position of \<open>target_pose\<close> is differentiable in time, coordinate by coordinate,
  and its derivative is the linear part of \<open>target_velocity\<close>; also at
  \<open>total_time / 2\<close>, where the two branches meet.
\<close>

lemma profile_DERIV:
  fixes s0 k T t :: real
  shows "DERIV (\<lambda>u. if u \<le> T / 2 then s0 + u ^ 2 * (k / 2)
                    else s0 + (T / 2) ^ 2 * (k / 2) +
                      ((u - T / 2) * (T / 2 * k) - (u - T / 2) ^ 2 * (k / 2))) t
          :> (if t \<le> T / 2 then t * k else T / 2 * k - (t - T / 2) * k)"
proof (rule branches_DERIV)
  show "DERIV (\<lambda>u. s0 + u ^ 2 * (k / 2)) t :>
      (if t \<le> T / 2 then t * k else T / 2 * k - (t - T / 2) * k)" if "t \<le> T / 2"
    using that by (auto intro!: derivative_eq_intros)
  show "DERIV (\<lambda>u. s0 + (T / 2) ^ 2 * (k / 2) +
                      ((u - T / 2) * (T / 2 * k) - (u - T / 2) ^ 2 * (k / 2))) t :>
      (if t \<le> T / 2 then t * k else T / 2 * k - (t - T / 2) * k)" if "T / 2 \<le> t"
    using that by (auto intro!: derivative_eq_intros simp: field_simps)
  show "s0 + (T / 2) ^ 2 * (k / 2) +
      ((T / 2 - T / 2) * (T / 2 * k) - (T / 2 - T / 2) ^ 2 * (k / 2)) =
      s0 + (T / 2) ^ 2 * (k / 2)"
    by simp
qed

lemma linear_velocity_is_derivative:
  assumes T0: "T \<noteq> 0"
  shows "\<exists>px py pz vx vy vz.
          (\<forall>u. fst (linear_target_pose (LinearTrajectory s g T) u) = Arr (px u, py u, pz u)) \<and>
          fst (linear_target_velocity (LinearTrajectory s g T) t) = Arr (vx, vy, vz) \<and>
          DERIV px t :> vx \<and> DERIV py t :> vy \<and> DERIV pz t :> vz"
proof -
  obtain s1 s2 s3 where s: "s = (s1, s2, s3)" by (cases s)
  obtain g1 g2 g3 where g: "g = (g1, g2, g3)" by (cases g)
  define k1 where "k1 = 1 / T ^ 2 * (4 * (g1 - s1))"
  define k2 where "k2 = 1 / T ^ 2 * (4 * (g2 - s2))"
  define k3 where "k3 = 1 / T ^ 2 * (4 * (g3 - s3))"
  define p where "p = (\<lambda>s0 k u. if u \<le> T / 2 then s0 + u ^ 2 * (k / 2)
                    else s0 + (T / 2) ^ 2 * (k / 2) +
                      ((u - T / 2) * (T / 2 * k) - (u - T / 2) ^ 2 * (k / 2)))"
  define v where "v = (\<lambda>k. if t \<le> T / 2 then t * k else T / 2 * k - (t - T / 2) * k)"
  have acc: "acceleration (LinearTrajectory s g T) = Arr (k1, k2, k3)"
    by (simp add: LinearTrajectory_def create_route_fields T0 s g k1_def k2_def k3_def)
  have vm: "v_max (LinearTrajectory s g T) = Arr (T / 2 * k1, T / 2 * k2, T / 2 * k3)"
    by (simp add: LinearTrajectory_def create_route_fields T0 s g k1_def k2_def k3_def)
  have tt: "total_time (LinearTrajectory s g T) = T"
    and st: "start_position (LinearTrajectory s g T) = (s1, s2, s3)"
    by (simp_all add: LinearTrajectory_def create_route_fields s)
  have pos: "fst (linear_target_pose (LinearTrajectory s g T) u) =
      Arr (p s1 k1 u, p s2 k2 u, p s3 k3 u)" for u
    by (simp add: linear_target_pose_def acc vm tt st p_def Let_def)
  have vel: "fst (linear_target_velocity (LinearTrajectory s g T) t) = Arr (v k1, v k2, v k3)"
    by (simp add: linear_target_velocity_def acc vm tt v_def)
  have d: "DERIV (p s0 k) t :> v k" for s0 k
    unfolding p_def v_def by (rule profile_DERIV)
  from pos vel d [of s1 k1] d [of s2 k2] d [of s3 k3] show ?thesis by blast
qed

lemma circular_velocity_is_derivative:
  assumes T0: "T \<noteq> 0"
  shows "\<exists>C px py pz vx vy vz. CircularTrajectory c r T = Inr C \<and>
          (\<forall>u. fst (circular_target_pose C u) = Arr (px u, py u, pz u)) \<and>
          fst (circular_target_velocity C t) = Arr (vx, vy, vz) \<and>
          DERIV px t :> vx \<and> DERIV py t :> vy \<and> DERIV pz t :> vz"
proof -
  obtain c1 c2 c3 where c: "c = (c1, c2, c3)" by (cases c)
  define aa where "aa = 8 * pi / T ^ 2"
  define C where "C = \<lparr>total_time = T, center_position = c, radius = r,
         angular_acceleration = aa, angular_v_max = (T / 2) * aa,
         orientation_c = (0, 1, 0, 0)\<rparr>"
  have ctor: "CircularTrajectory c r T = Inr C"
    unfolding C_def aa_def by (rule CircularTrajectory_fields [OF T0])
  have theta: "circular_theta C = (\<lambda>u. if u \<le> T / 2 then 0 + u ^ 2 * (aa / 2)
                    else 0 + (T / 2) ^ 2 * (aa / 2) +
                      ((u - T / 2) * (T / 2 * aa) - (u - T / 2) ^ 2 * (aa / 2)))"
    using T0 by (intro ext) (simp add: circular_theta_def C_def Let_def aa_def power2_eq_square field_simps)
  have dot: "circular_theta_dot C t =
      (if t \<le> T / 2 then t * aa else T / 2 * aa - (t - T / 2) * aa)"
    by (simp add: circular_theta_dot_def C_def Let_def)
  have dth: "DERIV (circular_theta C) t :> circular_theta_dot C t"
    unfolding theta dot by (rule profile_DERIV)
  define th where "th = circular_theta C"
  define w where "w = circular_theta_dot C t"
  from dth have dth': "DERIV th t :> w" by (simp add: th_def w_def)
  have pos: "fst (circular_target_pose C u) =
      Arr (c1 + r * cos (th u), c2 + r * sin (th u), c3 + r * 0)" for u
    by (simp add: circular_target_pose_def Let_def th_def) (simp add: C_def c)
  have vel: "fst (circular_target_velocity C t) =
      Arr (r * w * (- sin (th t)), r * w * cos (th t), r * w * 0)"
    by (simp add: circular_target_velocity_def Let_def th_def w_def) (simp add: C_def)
  have dx: "DERIV (\<lambda>u. c1 + r * cos (th u)) t :> r * w * (- sin (th t))"
    by (auto intro!: derivative_eq_intros dth')
  have dy: "DERIV (\<lambda>u. c2 + r * sin (th u)) t :> r * w * cos (th t)"
    by (auto intro!: derivative_eq_intros dth')
  have dz: "DERIV (\<lambda>u. c3 + r * 0) t :> r * w * 0"
    by simp
  show ?thesis
  proof (intro exI conjI allI)
    show "CircularTrajectory c r T = Inr C" by (rule ctor)
    show "fst (circular_target_pose C u) =
        Arr (c1 + r * cos (th u), c2 + r * sin (th u), c3 + r * 0)" for u
      by (rule pos)
    show "fst (circular_target_velocity C t) =
        Arr (r * w * (- sin (th t)), r * w * cos (th t), r * w * 0)"
      by (rule vel)
    show "DERIV (\<lambda>u. c1 + r * cos (th u)) t :> r * w * (- sin (th t))" by (rule dx)
    show "DERIV (\<lambda>u. c2 + r * sin (th u)) t :> r * w * cos (th t)" by (rule dy)
    show "DERIV (\<lambda>u. c3 + r * 0) t :> r * w * 0" by (rule dz)
  qed
qed

subsection \<open>Velocity and position of a PolygonalTrajectory\<close>

lemma linear_pose_finite:
  assumes "T \<noteq> 0"
  shows "\<exists>x y z. linear_target_pose (LinearTrajectory s g T) u = (Arr (x, y, z), (0, 1, 0, 0))"
proof -
  from linear_velocity_is_derivative [OF assms, of s g u]
  obtain px py pz
    where "fst (linear_target_pose (LinearTrajectory s g T) u) = Arr (px u, py u, pz u)"
    by blast
  then have "linear_target_pose (LinearTrajectory s g T) u =
      (Arr (px u, py u, pz u), (0, 1, 0, 0))"
    by (simp add: prod_eq_iff linear_orientation(1))
  then show ?thesis by blast
qed

lemma polygonal_pose_finite:
  assumes ctor: "PolygonalTrajectory start ar points T = Inr P" and T0: "T \<noteq> 0"
  shows "\<exists>x y z. polygonal_target_pose P t = Inr (Arr (x, y, z), (0, 1, 0, 0))"
proof -
  from select_trajectory_total [OF ctor, of t]
  obtain i where i: "i < 4" and sel: "select_trajectory P t = Inr (trajectories P ! i)"
    by blast
  from segment_is_linear [OF ctor i]
  obtain s g where seg: "trajectories P ! i = LinearTrajectory s g (T / 4)" by blast
  from T0 have "T / 4 \<noteq> 0" by simp
  from linear_pose_finite [OF this, of s g "t / 4"]
  show ?thesis unfolding polygonal_queries_delegate(1) [OF sel] seg by simp
qed

text \<open>
  C3: the linear part of \<open>target_velocity\<close> is the time derivative of the position of
  \<open>target_pose\<close>. For the LinearTrajectory and the CircularTrajectory this is
  \<open>linear_velocity_is_derivative\<close> and \<open>circular_velocity_is_derivative\<close> above, at
  every time. For the PolygonalTrajectory it fails. A square of duration 4 from the origin: up to
  \<open>t = 1\<close> the first segment (duration 1, acceleration \<open>(4, 0, 0)\<close>) is queried at
  \<open>t / 4\<close>, so the position's first coordinate is \<open>t\<^sup>2 / 8\<close>. At \<open>t = 1 / 2\<close> its
  derivative is \<open>1 / 8\<close>, and \<open>target_velocity\<close> returns \<open>1 / 2\<close> there.
\<close>

theorem polygonal_velocity_not_derivative:
  "\<exists>P px. PolygonalTrajectory (0, 0, 0) (0, 0, 0) [(1, 0, 0), (1, 1, 0), (0, 1, 0), (0, 0, 0)] 4 =
            Inr P \<and>
          (\<forall>t. \<exists>py pz. polygonal_target_pose P t = Inr (Arr (px t, py, pz), (0, 1, 0, 0))) \<and>
          DERIV px (1 / 2) :> 1 / 8 \<and>
          \<not> DERIV px (1 / 2) :> 1 / 2 \<and>
          polygonal_target_velocity P (1 / 2) = Inr (Arr (1 / 2, 0, 0), (0, 0, 0))"
proof -
  let ?pts = "[(1, 0, 0), (1, 1, 0), (0, 1, 0), (0, 0, 0 :: real)]"
  have "4 \<le> length ?pts" by simp
  from PolygonalTrajectory_ok [OF this, of "(0, 0, 0)" "(0, 0, 0)" 4]
  obtain P where ctor: "PolygonalTrajectory (0, 0, 0) (0, 0, 0) ?pts 4 = Inr P"
    and P: "P = \<lparr>total_time = 4, trajectories =
      [LinearTrajectory (0, 0, 0) (1, 0, 0) 1, LinearTrajectory (1, 0, 0) (1, 1, 0) 1,
       LinearTrajectory (1, 1, 0) (0, 1, 0) 1, LinearTrajectory (0, 1, 0) (0, 0, 0) 1]\<rparr>"
    by simp
  define px where "px = (\<lambda>t. case polygonal_target_pose P t of
      Inr (Arr (x, y, z), q) \<Rightarrow> x | _ \<Rightarrow> 0)"
  have fin: "\<exists>py pz. polygonal_target_pose P t = Inr (Arr (px t, py, pz), (0, 1, 0, 0))" for t
  proof -
    have "(4::real) \<noteq> 0" by simp
    from polygonal_pose_finite [OF ctor this, of t]
    obtain x y z where "polygonal_target_pose P t = Inr (Arr (x, y, z), (0, 1, 0, 0))"
      by blast
    then show ?thesis by (simp add: px_def)
  qed
  have first: "select_trajectory P t = Inr (LinearTrajectory (0, 0, 0) (1, 0, 0) 1)"
    if "t < 1" for t
    using that by (simp add: select_trajectory_def item_def P)
  have early: "px t = t ^ 2 / 8" if "t < 1" for t
  proof -
    from that have "t / 4 \<le> 1 / 2" by simp
    then have "linear_target_pose (LinearTrajectory (0, 0, 0) (1, 0, 0) 1) (t / 4) =
        (Arr (t ^ 2 / 8, 0, 0), (0, 1, 0, 0))"
      by (simp add: linear_target_pose_def LinearTrajectory_def create_route_fields
          power2_eq_square)
    then show ?thesis
      by (simp add: px_def polygonal_queries_delegate(1) [OF first [OF that]])
  qed
  have "DERIV (\<lambda>t. t ^ 2 / 8) (1 / 2) :> 1 / 8"
    by (auto intro!: derivative_eq_intros)
  then have d: "DERIV px (1 / 2) :> 1 / 8"
  proof (rule has_field_derivative_transform_within_open)
    show "open {..<1::real}" by simp
    show "(1 / 2 :: real) \<in> {..<1}" by simp
    show "t ^ 2 / 8 = px t" if "t \<in> {..<1}" for t using that early by simp
  qed
  have nd: "\<not> DERIV px (1 / 2) :> 1 / 2"
  proof
    assume "DERIV px (1 / 2) :> 1 / 2"
    from DERIV_unique [OF this d] show False by simp
  qed
  have "(1 / 2 :: real) < 1" by simp
  from polygonal_queries_delegate(2) [OF first [OF this]]
  have v: "polygonal_target_velocity P (1 / 2) = Inr (Arr (1 / 2, 0, 0), (0, 0, 0))"
    by (simp add: linear_target_velocity_def LinearTrajectory_def create_route_fields)
  show ?thesis
  proof (rule exI [of _ P], rule exI [of _ px], intro conjI allI)
    show "PolygonalTrajectory (0, 0, 0) (0, 0, 0) ?pts 4 = Inr P" by (rule ctor)
    show "\<exists>py pz. polygonal_target_pose P t = Inr (Arr (px t, py, pz), (0, 1, 0, 0))" for t
      by (rule fin)
    show "DERIV px (1 / 2) :> 1 / 8" by (rule d)
    show "\<not> DERIV px (1 / 2) :> 1 / 2" by (rule nd)
    show "polygonal_target_velocity P (1 / 2) = Inr (Arr (1 / 2, 0, 0), (0, 0, 0))" by (rule v)
  qed
qed

end
